theory Spec2Isabelle
  imports Complex_Main "HOL-Library.AList"
begin

section \<open>JavaScript numbers and values\<close>

text \<open>
  A JavaScript number is modelled as an exact rational, or one of the three non-finite
  values.  Arithmetic on finite values is exact: the binary rounding of IEEE doubles,
  overflow, underflow and the sign of zero are outside the model.  The operators follow
  the IEEE rules for the non-finite values: NaN is absorbing, a non-zero finite value
  divided by zero is an infinity, zero divided by zero is NaN.
\<close>

datatype jsnum = Fin rat | PosInf | NegInf | NaN

definition inf_of_sign :: "bool \<Rightarrow> jsnum" where
  "inf_of_sign neg = (if neg then NegInf else PosInf)"

fun is_neg :: "jsnum \<Rightarrow> bool" where
  "is_neg (Fin a) = (a < 0)"
| "is_neg NegInf = True"
| "is_neg PosInf = False"
| "is_neg NaN = False"


fun js_neg :: "jsnum \<Rightarrow> jsnum" where
  "js_neg (Fin a) = Fin (- a)"
| "js_neg PosInf = NegInf"
| "js_neg NegInf = PosInf"
| "js_neg NaN = NaN"

fun js_add :: "jsnum \<Rightarrow> jsnum \<Rightarrow> jsnum" where
  "js_add NaN y = NaN"
| "js_add x NaN = NaN"
| "js_add (Fin a) (Fin b) = Fin (a + b)"
| "js_add PosInf NegInf = NaN"
| "js_add NegInf PosInf = NaN"
| "js_add PosInf y = PosInf"
| "js_add NegInf y = NegInf"
| "js_add (Fin a) y = y"

fun js_mul :: "jsnum \<Rightarrow> jsnum \<Rightarrow> jsnum" where
  "js_mul NaN y = NaN"
| "js_mul x NaN = NaN"
| "js_mul (Fin a) (Fin b) = Fin (a * b)"
| "js_mul (Fin a) y = (if a = 0 then NaN else inf_of_sign ((a < 0) \<noteq> is_neg y))"
| "js_mul x (Fin b) = (if b = 0 then NaN else inf_of_sign (is_neg x \<noteq> (b < 0)))"
| "js_mul x y = inf_of_sign (is_neg x \<noteq> is_neg y)"

fun js_div :: "jsnum \<Rightarrow> jsnum \<Rightarrow> jsnum" where
  "js_div NaN y = NaN"
| "js_div x NaN = NaN"
| "js_div (Fin a) (Fin b) =
     (if b = 0 then (if a = 0 then NaN else inf_of_sign (a < 0)) else Fin (a / b))"
| "js_div (Fin a) y = Fin 0"
| "js_div x (Fin b) = inf_of_sign (is_neg x \<noteq> (b < 0))"
| "js_div x y = NaN"

instantiation jsnum :: "{plus, minus, times, inverse, uminus}"
begin

definition plus_jsnum :: "jsnum \<Rightarrow> jsnum \<Rightarrow> jsnum" where
  "plus_jsnum x y = js_add x y"

definition minus_jsnum :: "jsnum \<Rightarrow> jsnum \<Rightarrow> jsnum" where
  "minus_jsnum x y = js_add x (js_neg y)"

definition times_jsnum :: "jsnum \<Rightarrow> jsnum \<Rightarrow> jsnum" where
  "times_jsnum x y = js_mul x y"

definition divide_jsnum :: "jsnum \<Rightarrow> jsnum \<Rightarrow> jsnum" where
  "divide_jsnum x y = js_div x y"

definition inverse_jsnum :: "jsnum \<Rightarrow> jsnum" where
  "inverse_jsnum x = js_div (Fin 1) x"

definition uminus_jsnum :: "jsnum \<Rightarrow> jsnum" where
  "uminus_jsnum x = js_neg x"

instance ..

end

text \<open>
  JSON-like values.  An object is a plain object: an association list from property
  names to values, in insertion order; reading a property that is not there gives
  \<open>undefined\<close>.
\<close>

datatype jsval =
    JUndefined
  | JNull
  | JBool bool
  | JNum jsnum
  | JStr string
  | JObj "(string \<times> jsval) list"

type_synonym jsobj = "(string \<times> jsval) list"

definition js_get :: "jsobj \<Rightarrow> string \<Rightarrow> jsval" where
  "js_get obj k = (case map_of obj k of None \<Rightarrow> JUndefined | Some v \<Rightarrow> v)"

definition js_set :: "string \<Rightarrow> jsval \<Rightarrow> jsobj \<Rightarrow> jsobj" where
  "js_set k v obj = AList.update k v obj"



subsection \<open>Reading a number from a string\<close>

definition is_ws :: "char \<Rightarrow> bool" where
  "is_ws c = (c \<in> set [CHR '' '', CHR 0x09, CHR 0x0A, CHR 0x0B, CHR 0x0C, CHR 0x0D])"

definition is_digit :: "char \<Rightarrow> bool" where
  "is_digit c = (c \<in> set ''0123456789'')"

definition digit_of :: "char \<Rightarrow> nat" where
  "digit_of c = of_char c - of_char (CHR ''0'')"

definition digits_val :: "string \<Rightarrow> nat" where
  "digits_val s = foldl (\<lambda>n c. 10 * n + digit_of c) 0 s"


definition trim :: "string \<Rightarrow> string" where
  "trim s = rev (dropWhile is_ws (rev (dropWhile is_ws s)))"

text \<open>The exponent part of a decimal literal: nothing, or \<open>e\<close>, a sign and digits.\<close>

definition exponent_part :: "string \<Rightarrow> int option" where
  "exponent_part s =
     (case s of
        [] \<Rightarrow> Some 0
      | c # r \<Rightarrow>
          if c = CHR ''e'' \<or> c = CHR ''E'' then
            (let (neg, ds) = (case r of
                                d # r' \<Rightarrow> if d = CHR ''-'' then (True, r')
                                          else if d = CHR ''+'' then (False, r') else (False, r)
                              | [] \<Rightarrow> (False, r))
             in if ds \<noteq> [] \<and> list_all is_digit ds
                then Some (if neg then - int (digits_val ds) else int (digits_val ds))
                else None)
          else None)"

definition scale10 :: "rat \<Rightarrow> int \<Rightarrow> rat" where
  "scale10 m e = (if 0 \<le> e then m * 10 ^ nat e else m / 10 ^ nat (- e))"

definition str_unsigned_decimal :: "string \<Rightarrow> jsnum" where
  "str_unsigned_decimal s =
     (if s = ''Infinity'' then PosInf
      else
        let ip = takeWhile is_digit s;
            r1 = dropWhile is_digit s;
            (fp, r2) = (case r1 of
                          c # r \<Rightarrow> if c = CHR ''.''
                                    then (takeWhile is_digit r, dropWhile is_digit r)
                                    else ([], r1)
                        | [] \<Rightarrow> ([], r1))
        in if ip = [] \<and> fp = [] then NaN
           else (case exponent_part r2 of
                   None \<Rightarrow> NaN
                 | Some e \<Rightarrow>
                     Fin (scale10 (of_nat (digits_val ip)
                                   + of_nat (digits_val fp) / 10 ^ length fp) e)))"

text \<open>
  A literal in base 16, 8 or 2: the prefix \<open>0x\<close>, \<open>0o\<close> or \<open>0b\<close> and at least one digit of
  the base, no sign.
\<close>

definition radix_digit :: "char \<Rightarrow> nat" where
  "radix_digit c =
     (if is_digit c then digit_of c
      else if c \<in> set ''abcdef'' then of_char c - of_char (CHR ''a'') + 10
      else if c \<in> set ''ABCDEF'' then of_char c - of_char (CHR ''A'') + 10
      else 16)"

definition radix_val :: "nat \<Rightarrow> string \<Rightarrow> jsnum" where
  "radix_val b s =
     (if s \<noteq> [] \<and> list_all (\<lambda>c. radix_digit c < b) s
      then Fin (of_nat (foldl (\<lambda>n c. b * n + radix_digit c) 0 s))
      else NaN)"

definition non_decimal :: "string \<Rightarrow> jsnum option" where
  "non_decimal s =
     (case s of
        z # x # r \<Rightarrow>
          if z \<noteq> CHR ''0'' then None
          else if x = CHR ''x'' \<or> x = CHR ''X'' then Some (radix_val 16 r)
          else if x = CHR ''o'' \<or> x = CHR ''O'' then Some (radix_val 8 r)
          else if x = CHR ''b'' \<or> x = CHR ''B'' then Some (radix_val 2 r)
          else None
      | _ \<Rightarrow> None)"

text \<open>
  StringToNumber: surrounding (ASCII) white space is skipped, the empty string is 0, a
  literal in base 16, 8 or 2 or a signed decimal literal is its value, anything else is
  NaN.  The literal is read exactly, with no rounding to a double.
\<close>

definition string_to_number :: "string \<Rightarrow> jsnum" where
  "string_to_number s =
     (case trim s of
        [] \<Rightarrow> Fin 0
      | c # r \<Rightarrow>
          (case non_decimal (c # r) of
             Some x \<Rightarrow> x
           | None \<Rightarrow>
               if c = CHR ''+'' then str_unsigned_decimal r
               else if c = CHR ''-'' then - str_unsigned_decimal r
               else str_unsigned_decimal (c # r)))"

fun Number :: "jsval \<Rightarrow> jsnum" where
  "Number JUndefined = NaN"
| "Number JNull = Fin 0"
| "Number (JBool b) = (if b then Fin 1 else Fin 0)"
| "Number (JNum x) = x"
| "Number (JStr s) = string_to_number s"
| "Number (JObj ps) = NaN"

subsection \<open>\<open>toFixed\<close> and \<open>parseFloat\<close>\<close>

text \<open>
  \<open>x.toFixed(f)\<close> picks the integer \<open>n\<close> with \<open>n / 10^f\<close> nearest to \<open>|x|\<close>, the larger
  one on a tie, and prints the sign, \<open>n\<close> and the decimal point; a non-finite \<open>x\<close> prints
  as its name.  The string is kept as its parts.  For \<open>|x| \<ge> 10^21\<close> JavaScript prints
  the number itself instead; a double of that size is an integer and is read back
  unchanged, which is what rounding to \<open>f\<close> decimals gives, so the model rounds
  uniformly.
\<close>

datatype fixedstr =
    FixedDec bool nat nat
  | StrInfinity
  | StrNegInfinity
  | StrNaN

fun toFixed :: "jsnum \<Rightarrow> nat \<Rightarrow> fixedstr" where
  "toFixed (Fin q) f = FixedDec (q < 0) (nat \<lfloor>\<bar>q\<bar> * 10 ^ f + 1 / 2\<rfloor>) f"
| "toFixed PosInf f = StrInfinity"
| "toFixed NegInf f = StrNegInfinity"
| "toFixed NaN f = StrNaN"

fun parseFloat :: "fixedstr \<Rightarrow> jsnum" where
  "parseFloat (FixedDec neg n f) =
     (if neg then Fin (- (of_nat n / 10 ^ f)) else Fin (of_nat n / 10 ^ f))"
| "parseFloat StrInfinity = PosInf"
| "parseFloat StrNegInfinity = NegInf"
| "parseFloat StrNaN = NaN"

section \<open>The calculation results\<close>

datatype RiskLevel = Low | Medium | High

record FinancialCalculation =
  roi :: jsnum
  breakEven :: jsnum
  netProfit :: jsnum
  profitMargin :: jsnum
  riskLevel :: RiskLevel

record MonthlyProjection =
  month :: nat
  revenue :: jsnum
  expenses :: jsnum
  profit :: jsnum

record ScenarioCalculations =
  scenario :: jsobj
  financialMetrics :: FinancialCalculation
  monthlyProjections :: "MonthlyProjection list"

record CostBreakdown =
  initialInvestment :: jsnum
  fixedCosts :: jsnum
  variableCosts :: jsnum

section \<open>The client-side calculations\<close>

text \<open>
  A project and a scenario are rows of the tables \<open>projects\<close> and \<open>scenarios\<close>: objects
  whose numeric columns arrive as strings and are read with \<open>Number\<close>.
\<close>

definition calculateFinancialMetrics :: "jsobj \<Rightarrow> jsobj \<Rightarrow> FinancialCalculation" where
  "calculateFinancialMetrics project scn =
     (let growthMultiplier = Fin 1 + (Number (js_get scn ''growthRate'') / Fin 100);
          costMultiplier = Fin 1 + (Number (js_get scn ''costAdjustment'') / Fin 100);
          adjustedMonthlyRevenue =
            Number (js_get project ''expectedMonthlyRevenue'') * growthMultiplier;
          adjustedMonthlyFixedCosts =
            Number (js_get project ''monthlyFixedCosts'') * costMultiplier;
          adjustedVariableCosts = Number (js_get project ''variableCosts'') * costMultiplier;
          annualRevenue = adjustedMonthlyRevenue * Fin 12;
          annualFixedCosts = adjustedMonthlyFixedCosts * Fin 12;
          annualVariableCosts = (adjustedVariableCosts / Fin 100) * annualRevenue;
          totalAnnualCosts = annualFixedCosts + annualVariableCosts;
          annualProfit = annualRevenue - totalAnnualCosts;
          roi_v = (annualProfit / Number (js_get project ''initialInvestment'')) * Fin 100;
          monthlyProfit =
            adjustedMonthlyRevenue - adjustedMonthlyFixedCosts
              - ((adjustedVariableCosts / Fin 100) * adjustedMonthlyRevenue);
          breakEven_v = Number (js_get project ''initialInvestment'') / monthlyProfit;
          profitMargin_v = (annualProfit / annualRevenue) * Fin 100;
          riskLevel_v =
            (if js_get scn ''name'' = JStr ''Optimistic'' then Low
             else if js_get scn ''name'' = JStr ''Realistic'' then Medium
             else High)
      in \<lparr> roi = parseFloat (toFixed roi_v 1),
           breakEven = parseFloat (toFixed breakEven_v 1),
           netProfit = parseFloat (toFixed annualProfit 2),
           profitMargin = parseFloat (toFixed profitMargin_v 1),
           riskLevel = riskLevel_v \<rparr>)"

definition generateMonthlyProjections :: "jsobj \<Rightarrow> jsobj \<Rightarrow> MonthlyProjection list" where
  "generateMonthlyProjections project scn =
     (let growthMultiplier = Fin 1 + (Number (js_get scn ''growthRate'') / Fin 100);
          costMultiplier = Fin 1 + (Number (js_get scn ''costAdjustment'') / Fin 100);
          adjustedMonthlyRevenue =
            Number (js_get project ''expectedMonthlyRevenue'') * growthMultiplier;
          adjustedMonthlyFixedCosts =
            Number (js_get project ''monthlyFixedCosts'') * costMultiplier;
          adjustedVariableCosts = Number (js_get project ''variableCosts'') * costMultiplier
      in map (\<lambda>i.
            let month_v = i + 1;
                monthRevenue = adjustedMonthlyRevenue * (Fin 1 + (Fin (2 / 100) * Fin (of_nat i)));
                monthExpenses =
                  adjustedMonthlyFixedCosts + ((adjustedVariableCosts / Fin 100) * monthRevenue);
                monthProfit = monthRevenue - monthExpenses
            in \<lparr> month = month_v,
                 revenue = parseFloat (toFixed monthRevenue 2),
                 expenses = parseFloat (toFixed monthExpenses 2),
                 profit = parseFloat (toFixed monthProfit 2) \<rparr>)
          [0 ..< 12])"

definition generateCostBreakdown :: "jsobj \<Rightarrow> CostBreakdown" where
  "generateCostBreakdown project =
     \<lparr> initialInvestment = Number (js_get project ''initialInvestment''),
       fixedCosts = Number (js_get project ''monthlyFixedCosts'') * Fin 12,
       variableCosts =
         Number (js_get project ''expectedMonthlyRevenue'')
           * (Number (js_get project ''variableCosts'') / Fin 100) * Fin 12 \<rparr>"

section \<open>Storage\<close>

text \<open>
  The two tables, each a list of rows in table order.  A row is an object keyed by the
  column names of the schema.
\<close>

record db =
  db_projects :: "jsobj list"
  db_scenarios :: "jsobj list"



definition id_is :: "string \<Rightarrow> nat \<Rightarrow> jsobj \<Rightarrow> bool" where
  "id_is col n row = (js_get row col = JNum (Fin (of_nat n)))"



definition first_row :: "jsobj list \<Rightarrow> jsobj option" where
  "first_row rows = (case rows of [] \<Rightarrow> None | r # _ \<Rightarrow> Some r)"

definition getProject :: "db \<Rightarrow> nat \<Rightarrow> jsobj option" where
  "getProject d n = first_row (filter (id_is ''id'' n) (db_projects d))"

definition getScenarios :: "db \<Rightarrow> nat \<Rightarrow> jsobj list" where
  "getScenarios d projectId = filter (id_is ''projectId'' projectId) (db_scenarios d)"

definition getScenarioById :: "db \<Rightarrow> nat \<Rightarrow> jsobj option" where
  "getScenarioById d n = first_row (filter (id_is ''id'' n) (db_scenarios d))"

text \<open>
  \<open>{...project, scenarios: scenarioList}\<close>: the project's columns and the list of its
  scenarios.
\<close>

record ProjectWithScenarios =
  pws_project :: jsobj
  pws_scenarios :: "jsobj list"

definition getProjectWithScenarios :: "db \<Rightarrow> nat \<Rightarrow> ProjectWithScenarios option" where
  "getProjectWithScenarios d projectId =
     (case getProject d projectId of
        None \<Rightarrow> None
      | Some project \<Rightarrow>
          Some \<lparr> pws_project = project, pws_scenarios = getScenarios d projectId \<rparr>)"

section \<open>The server-side analysis\<close>

text \<open>
  The body of the \<open>map\<close> callback of \<open>POST /api/analysis\<close>: the figures of one scenario
  of the project.  The four project columns are read from the project with its
  scenarios.
\<close>

definition scenarioCalculation :: "ProjectWithScenarios \<Rightarrow> jsobj \<Rightarrow> ScenarioCalculations" where
  "scenarioCalculation projectWithScenarios scn =
     (let initialInvestment_v = js_get (pws_project projectWithScenarios) ''initialInvestment'';
          monthlyFixedCosts = js_get (pws_project projectWithScenarios) ''monthlyFixedCosts'';
          variableCosts_v = js_get (pws_project projectWithScenarios) ''variableCosts'';
          expectedMonthlyRevenue =
            js_get (pws_project projectWithScenarios) ''expectedMonthlyRevenue'';
          growthMultiplier = Fin 1 + (Number (js_get scn ''growthRate'') / Fin 100);
          costMultiplier = Fin 1 + (Number (js_get scn ''costAdjustment'') / Fin 100);
          adjustedMonthlyRevenue = Number expectedMonthlyRevenue * growthMultiplier;
          adjustedMonthlyFixedCosts = Number monthlyFixedCosts * costMultiplier;
          adjustedVariableCosts = Number variableCosts_v * costMultiplier;
          annualRevenue = adjustedMonthlyRevenue * Fin 12;
          annualFixedCosts = adjustedMonthlyFixedCosts * Fin 12;
          annualVariableCosts = (adjustedVariableCosts / Fin 100) * annualRevenue;
          totalAnnualCosts = annualFixedCosts + annualVariableCosts;
          annualProfit = annualRevenue - totalAnnualCosts;
          roi_v = (annualProfit / Number initialInvestment_v) * Fin 100;
          monthlyProfit =
            adjustedMonthlyRevenue - adjustedMonthlyFixedCosts
              - ((adjustedVariableCosts / Fin 100) * adjustedMonthlyRevenue);
          breakEven_v = Number initialInvestment_v / monthlyProfit;
          profitMargin_v = (annualProfit / annualRevenue) * Fin 100;
          riskLevel_v =
            (if js_get scn ''name'' = JStr ''Optimistic'' then Low
             else if js_get scn ''name'' = JStr ''Realistic'' then Medium
             else High);
          monthlyProjections_v =
            map (\<lambda>i.
              let month_v = i + 1;
                  monthRevenue =
                    adjustedMonthlyRevenue * (Fin 1 + (Fin (2 / 100) * Fin (of_nat i)));
                  monthExpenses =
                    adjustedMonthlyFixedCosts
                      + ((adjustedVariableCosts / Fin 100) * monthRevenue);
                  monthProfit = monthRevenue - monthExpenses
              in \<lparr> month = month_v,
                   revenue = parseFloat (toFixed monthRevenue 2),
                   expenses = parseFloat (toFixed monthExpenses 2),
                   profit = parseFloat (toFixed monthProfit 2) \<rparr>)
            [0 ..< 12]
      in \<lparr> scenario = scn,
           financialMetrics =
             \<lparr> roi = parseFloat (toFixed roi_v 1),
               breakEven = parseFloat (toFixed breakEven_v 1),
               netProfit = parseFloat (toFixed annualProfit 2),
               profitMargin = parseFloat (toFixed profitMargin_v 1),
               riskLevel = riskLevel_v \<rparr>,
           monthlyProjections = monthlyProjections_v \<rparr>)"

definition scenarioCalculations :: "ProjectWithScenarios \<Rightarrow> ScenarioCalculations list" where
  "scenarioCalculations projectWithScenarios =
     map (scenarioCalculation projectWithScenarios) (pws_scenarios projectWithScenarios)"

definition costBreakdown :: "ProjectWithScenarios \<Rightarrow> CostBreakdown" where
  "costBreakdown projectWithScenarios =
     (let initialInvestment_v = js_get (pws_project projectWithScenarios) ''initialInvestment'';
          monthlyFixedCosts = js_get (pws_project projectWithScenarios) ''monthlyFixedCosts'';
          variableCosts_v = js_get (pws_project projectWithScenarios) ''variableCosts'';
          expectedMonthlyRevenue =
            js_get (pws_project projectWithScenarios) ''expectedMonthlyRevenue''
      in \<lparr> initialInvestment = Number initialInvestment_v,
           fixedCosts = Number monthlyFixedCosts * Fin 12,
           variableCosts =
             Number expectedMonthlyRevenue * (Number variableCosts_v / Fin 100) * Fin 12 \<rparr>)"

text \<open>
  The response of \<open>POST /api/analysis\<close>.  The request carries the project id, the
  session the user id.  The handler answers 400 when the project id is missing (0 here),
  404 for an unknown project and 403 for a project of another user; 500 is its answer to
  an exception, and no step of the calculation throws.  The recommendations come from an
  external text service (with a fixed fallback) and are left out.
\<close>

datatype http_error = BadRequest400 | Forbidden403 | NotFound404 | ServerError500

record ProjectAnalysis =
  pa_project :: ProjectWithScenarios
  pa_scenarios :: "ScenarioCalculations list"
  pa_costBreakdown :: CostBreakdown

definition api_analysis :: "db \<Rightarrow> nat \<Rightarrow> nat \<Rightarrow> http_error + ProjectAnalysis" where
  "api_analysis d userId projectId =
     (if projectId = 0 then Inl BadRequest400
      else
        case getProject d projectId of
          None \<Rightarrow> Inl NotFound404
        | Some projectInfo \<Rightarrow>
            if \<not> id_is ''userId'' userId projectInfo then Inl Forbidden403
            else
              (case getProjectWithScenarios d projectId of
                 None \<Rightarrow> Inl NotFound404
               | Some projectWithScenarios \<Rightarrow>
                   Inr \<lparr> pa_project = projectWithScenarios,
                         pa_scenarios = scenarioCalculations projectWithScenarios,
                         pa_costBreakdown = costBreakdown projectWithScenarios \<rparr>))"

section \<open>Input transformation and updates\<close>











section \<open>The components as the specification words them\<close>

text \<open>
  The definitions of this section follow the specification's sections 4.1 to 4.3, not
  the code; the theorems below compare the code with them.
\<close>

record AdjustedFigures =
  adjustedMonthlyRevenue :: jsnum
  adjustedMonthlyFixedCosts :: jsnum
  adjustedVariableCostRate :: jsnum

text \<open>Section 4.1, the scenario adjuster.\<close>

definition ScenarioAdjuster :: "jsobj \<Rightarrow> jsobj \<Rightarrow> AdjustedFigures" where
  "ScenarioAdjuster project scn =
     (let growthMultiplier = Fin 1 + Number (js_get scn ''growthRate'') / Fin 100;
          costMultiplier = Fin 1 + Number (js_get scn ''costAdjustment'') / Fin 100
      in \<lparr> adjustedMonthlyRevenue =
             Number (js_get project ''expectedMonthlyRevenue'') * growthMultiplier,
           adjustedMonthlyFixedCosts =
             Number (js_get project ''monthlyFixedCosts'') * costMultiplier,
           adjustedVariableCostRate =
             Number (js_get project ''variableCosts'') * costMultiplier \<rparr>)"


text \<open>
  Rounding to \<open>d\<close> decimals, half away from zero; a non-finite value has no digits and
  stays as it is.
\<close>

definition round_half_away :: "nat \<Rightarrow> rat \<Rightarrow> rat" where
  "round_half_away d q = sgn q * of_int \<lfloor>\<bar>q\<bar> * 10 ^ d + 1 / 2\<rfloor> / 10 ^ d"

fun js_round :: "nat \<Rightarrow> jsnum \<Rightarrow> jsnum" where
  "js_round d (Fin q) = Fin (round_half_away d q)"
| "js_round d PosInf = PosInf"
| "js_round d NegInf = NegInf"
| "js_round d NaN = NaN"


text \<open>Section 4.3, the projection of the month with 0-based index \<open>i\<close>.\<close>

definition projection_entry :: "AdjustedFigures \<Rightarrow> nat \<Rightarrow> MonthlyProjection" where
  "projection_entry a i =
     (let monthRevenue = adjustedMonthlyRevenue a * (Fin 1 + Fin (2 / 100) * Fin (of_nat i));
          monthExpenses =
            adjustedMonthlyFixedCosts a + (adjustedVariableCostRate a / Fin 100) * monthRevenue;
          monthProfit = monthRevenue - monthExpenses
      in \<lparr> month = i + 1,
           revenue = js_round 2 monthRevenue,
           expenses = js_round 2 monthExpenses,
           profit = js_round 2 monthProfit \<rparr>)"

section \<open>Example data\<close>

text \<open>The specification's worked project, as it is written there and as it is stored.\<close>

definition example_project :: jsobj where
  "example_project =
     [(''initialInvestment'', JNum (Fin 50000)), (''monthlyFixedCosts'', JNum (Fin 5000)),
      (''variableCosts'', JNum (Fin 20)), (''expectedMonthlyRevenue'', JNum (Fin 15000))]"

definition scenario_realistic :: jsobj where
  "scenario_realistic =
     [(''name'', JStr ''Realistic''), (''growthRate'', JNum (Fin 15)),
      (''costAdjustment'', JNum (Fin 0))]"

definition scenario_pessimistic :: jsobj where
  "scenario_pessimistic =
     [(''name'', JStr ''Pessimistic''), (''growthRate'', JNum (Fin 8)),
      (''costAdjustment'', JNum (Fin 15))]"

definition project_row :: jsobj where
  "project_row =
     [(''id'', JNum (Fin 1)), (''name'', JStr ''Shop''), (''timeHorizon'', JNum (Fin 24)),
      (''initialInvestment'', JStr ''50000''), (''monthlyFixedCosts'', JStr ''5000''),
      (''variableCosts'', JStr ''20''), (''expectedMonthlyRevenue'', JStr ''15000''),
      (''userId'', JNum (Fin 7))]"

definition realistic_row :: jsobj where
  "realistic_row =
     [(''id'', JNum (Fin 1)), (''projectId'', JNum (Fin 1)), (''name'', JStr ''Realistic''),
      (''enabled'', JBool True), (''growthRate'', JStr ''15''), (''costAdjustment'', JStr ''0'')]"

definition pessimistic_row :: jsobj where
  "pessimistic_row =
     [(''id'', JNum (Fin 3)), (''projectId'', JNum (Fin 1)), (''name'', JStr ''Pessimistic''),
      (''enabled'', JBool False), (''growthRate'', JStr ''8''), (''costAdjustment'', JStr ''15'')]"

definition example_db :: db where
  "example_db =
     \<lparr> db_projects = [project_row], db_scenarios = [realistic_row, pessimistic_row] \<rparr>"

definition example_pws :: ProjectWithScenarios where
  "example_pws =
     \<lparr> pws_project = project_row, pws_scenarios = [realistic_row, pessimistic_row] \<rparr>"











section \<open>Auxiliary facts\<close>

lemmas js_arith = plus_jsnum_def minus_jsnum_def times_jsnum_def divide_jsnum_def

lemmas js_parse =
  string_to_number_def non_decimal_def trim_def is_ws_def str_unsigned_decimal_def
  is_digit_def digits_val_def digit_of_def exponent_part_def scale10_def

lemma floor_rat_numeral: "\<lfloor>numeral a / numeral b :: rat\<rfloor> = numeral a div numeral b"
  by (metis floor_divide_of_int_eq of_int_numeral)

lemma parseFloat_toFixed: "parseFloat (toFixed x d) = js_round d x"
proof (cases x)
  case (Fin q)
  have nonneg: "0 \<le> \<lfloor>\<bar>q\<bar> * 10 ^ d + 1 / 2\<rfloor>"
    by simp
  show ?thesis
  proof (cases "q < 0")
    case True
    then show ?thesis
      using Fin nonneg by (simp add: round_half_away_def)
  next
    case False
    then show ?thesis
      using Fin nonneg by (cases "q = 0") (simp_all add: round_half_away_def)
  qed
qed simp_all


lemma js_get_js_set: "js_get (js_set k v obj) k' = (if k' = k then v else js_get obj k')"
  by (simp add: js_get_def js_set_def update_conv')

text \<open>The server's per-scenario figures are the client's two functions.\<close>

lemma scenarioCalculation_client:
  "scenarioCalculation pws scn =
     \<lparr> scenario = scn,
       financialMetrics = calculateFinancialMetrics (pws_project pws) scn,
       monthlyProjections = generateMonthlyProjections (pws_project pws) scn \<rparr>"
  by (simp add: scenarioCalculation_def calculateFinancialMetrics_def
      generateMonthlyProjections_def Let_def)

lemma generateMonthlyProjections_entries:
  "generateMonthlyProjections project scn =
     map (projection_entry (ScenarioAdjuster project scn)) [0 ..< 12]"
  by (simp add: generateMonthlyProjections_def projection_entry_def ScenarioAdjuster_def
      Let_def parseFloat_toFixed)


section \<open>The worked examples\<close>

lemma realistic_metrics:
  "calculateFinancialMetrics example_project scenario_realistic =
     \<lparr> roi = Fin (2112 / 10), breakEven = Fin (57 / 10), netProfit = Fin 105600,
       profitMargin = Fin 51, riskLevel = Medium \<rparr>"
  by (simp add: calculateFinancialMetrics_def example_project_def scenario_realistic_def
      js_get_def js_arith Let_def floor_rat_numeral)

lemma realistic_row_metrics:
  "calculateFinancialMetrics project_row realistic_row =
     \<lparr> roi = Fin (2112 / 10), breakEven = Fin (57 / 10), netProfit = Fin 105600,
       profitMargin = Fin 51, riskLevel = Medium \<rparr>"
  by (simp add: calculateFinancialMetrics_def project_row_def realistic_row_def
      js_get_def js_parse js_arith Let_def floor_rat_numeral)

lemma pessimistic_adjusted:
  "ScenarioAdjuster example_project scenario_pessimistic =
     \<lparr> adjustedMonthlyRevenue = Fin 16200, adjustedMonthlyFixedCosts = Fin 5750,
       adjustedVariableCostRate = Fin 23 \<rparr>"
  by (simp add: ScenarioAdjuster_def example_project_def scenario_pessimistic_def
      js_get_def js_arith Let_def)

lemma pessimistic_row_adjusted:
  "ScenarioAdjuster project_row pessimistic_row =
     \<lparr> adjustedMonthlyRevenue = Fin 16200, adjustedMonthlyFixedCosts = Fin 5750,
       adjustedVariableCostRate = Fin 23 \<rparr>"
  by (simp add: ScenarioAdjuster_def project_row_def pessimistic_row_def
      js_get_def js_parse js_arith Let_def)

lemma upt_12: "[0 ..< 12] = [0, 1, 2, 3, 4, 5, 6, 7, 8, 9, 10, 11]"
  by (simp add: upt_rec)

lemma pessimistic_first_entry:
  "projection_entry
     \<lparr> adjustedMonthlyRevenue = Fin 16200, adjustedMonthlyFixedCosts = Fin 5750,
       adjustedVariableCostRate = Fin 23 \<rparr> 0 =
   \<lparr> month = 1, revenue = Fin 16200, expenses = Fin 9476, profit = Fin 6724 \<rparr>"
  by (simp add: projection_entry_def js_arith Let_def round_half_away_def floor_rat_numeral)

lemma pessimistic_first_month:
  "hd (generateMonthlyProjections example_project scenario_pessimistic) =
     \<lparr> month = 1, revenue = Fin 16200, expenses = Fin 9476, profit = Fin 6724 \<rparr>"
  by (simp add: generateMonthlyProjections_entries pessimistic_adjusted upt_12
      pessimistic_first_entry)

lemma pessimistic_row_first_month:
  "hd (generateMonthlyProjections project_row pessimistic_row) =
     \<lparr> month = 1, revenue = Fin 16200, expenses = Fin 9476, profit = Fin 6724 \<rparr>"
  by (simp add: generateMonthlyProjections_entries pessimistic_row_adjusted upt_12
      pessimistic_first_entry)

lemma example_db_analysis:
  "api_analysis example_db 7 1 =
     Inr \<lparr> pa_project = example_pws,
           pa_scenarios =
             [scenarioCalculation example_pws realistic_row,
              scenarioCalculation example_pws pessimistic_row],
           pa_costBreakdown = costBreakdown example_pws \<rparr>"
  by (simp add: api_analysis_def getProject_def getProjectWithScenarios_def getScenarios_def
      example_db_def example_pws_def id_is_def first_row_def scenarioCalculations_def
      js_get_def project_row_def realistic_row_def pessimistic_row_def)

text \<open>
  C1.  The specification's two worked examples.  For the project with initial investment
  50000, monthly fixed costs 5000, variable cost rate 20 and expected monthly revenue
  15000, the scenario Realistic (growth 15, cost adjustment 0) has ROI 211.2, break-even
  5.7 months, net profit 105600, profit margin 51.0 and risk Medium; the scenario
  Pessimistic (growth 8, cost adjustment 15) has the adjusted figures 16200, 5750 and 23,
  and its first month has revenue 16200, expenses 9476 and profit 6724.  This holds for
  the client functions on the figures as the specification writes them, and for the
  server's analysis of the same project stored as rows with numeric strings.
\<close>

theorem C1_worked_examples:
  "calculateFinancialMetrics example_project scenario_realistic =
     \<lparr> roi = Fin (2112 / 10), breakEven = Fin (57 / 10), netProfit = Fin 105600,
       profitMargin = Fin 51, riskLevel = Medium \<rparr>
   \<and> ScenarioAdjuster example_project scenario_pessimistic =
     \<lparr> adjustedMonthlyRevenue = Fin 16200, adjustedMonthlyFixedCosts = Fin 5750,
       adjustedVariableCostRate = Fin 23 \<rparr>
   \<and> hd (generateMonthlyProjections example_project scenario_pessimistic) =
     \<lparr> month = 1, revenue = Fin 16200, expenses = Fin 9476, profit = Fin 6724 \<rparr>
   \<and> map financialMetrics (pa_scenarios (projr (api_analysis example_db 7 1))) ! 0 =
     \<lparr> roi = Fin (2112 / 10), breakEven = Fin (57 / 10), netProfit = Fin 105600,
       profitMargin = Fin 51, riskLevel = Medium \<rparr>
   \<and> ScenarioAdjuster project_row pessimistic_row =
     \<lparr> adjustedMonthlyRevenue = Fin 16200, adjustedMonthlyFixedCosts = Fin 5750,
       adjustedVariableCostRate = Fin 23 \<rparr>
   \<and> hd (map monthlyProjections (pa_scenarios (projr (api_analysis example_db 7 1))) ! 1) =
     \<lparr> month = 1, revenue = Fin 16200, expenses = Fin 9476, profit = Fin 6724 \<rparr>"
proof -
  have "map financialMetrics (pa_scenarios (projr (api_analysis example_db 7 1))) ! 0 =
      calculateFinancialMetrics project_row realistic_row"
    unfolding example_db_analysis
    by (simp add: scenarioCalculation_client example_pws_def)
  moreover have
    "hd (map monthlyProjections (pa_scenarios (projr (api_analysis example_db 7 1))) ! 1) =
      hd (generateMonthlyProjections project_row pessimistic_row)"
    unfolding example_db_analysis
    by (simp add: scenarioCalculation_client example_pws_def)
  ultimately show ?thesis
    using realistic_metrics realistic_row_metrics pessimistic_adjusted
      pessimistic_row_adjusted pessimistic_first_month pessimistic_row_first_month
    by simp
qed

section \<open>The monthly projections\<close>




section \<open>The cost breakdown\<close>


section \<open>The risk level\<close>

text \<open>
  C6.  The risk level is Low for the scenario named Optimistic, Medium for the one named
  Realistic and High for every other name, Pessimistic included; the right-hand side
  mentions nothing but the scenario's name, so neither the project nor a computed figure
  enters.
\<close>

theorem C6_risk_level:
  "riskLevel (calculateFinancialMetrics project scn) =
     (if js_get scn ''name'' = JStr ''Optimistic'' then Low
      else if js_get scn ''name'' = JStr ''Realistic'' then Medium else High)
   \<and> riskLevel (financialMetrics
         (scenarioCalculation \<lparr> pws_project = project, pws_scenarios = scns \<rparr> scn)) =
     (if js_get scn ''name'' = JStr ''Optimistic'' then Low
      else if js_get scn ''name'' = JStr ''Realistic'' then Medium else High)
   \<and> riskLevel (calculateFinancialMetrics project (js_set ''name'' (JStr ''Pessimistic'') scn))
       = High"
  by (simp add: scenarioCalculation_client calculateFinancialMetrics_def Let_def js_get_js_set)

section \<open>Client and server\<close>

text \<open>
  C7.  On the same project and scenarios the client's three functions return what the
  server's analysis computes: the same metrics and projections for every scenario, and
  the same cost breakdown.
\<close>

theorem C7_client_is_server:
  "scenarioCalculations pws =
     map (\<lambda>scn. \<lparr> scenario = scn,
                   financialMetrics = calculateFinancialMetrics (pws_project pws) scn,
                   monthlyProjections = generateMonthlyProjections (pws_project pws) scn \<rparr>)
       (pws_scenarios pws)
   \<and> costBreakdown pws = generateCostBreakdown (pws_project pws)"
  by (simp add: scenarioCalculations_def scenarioCalculation_client costBreakdown_def
      generateCostBreakdown_def Let_def)

section \<open>Rounding\<close>




section \<open>Non-finite results\<close>











section \<open>The scenarios of the analysis\<close>

text \<open>
  C2, as stated, fails: the analysis of a project with a disabled scenario lists that
  scenario.  Neither the storage query nor the handler looks at the column \<open>enabled\<close>.
\<close>

theorem C2_disabled_scenario_counterexample:
  "js_get pessimistic_row ''enabled'' = JBool False
   \<and> map scenario (pa_scenarios (projr (api_analysis example_db 7 1)))
       = [realistic_row, pessimistic_row]"
  unfolding example_db_analysis
  by (simp add: scenarioCalculation_client) (simp add: pessimistic_row_def js_get_def)

text \<open>
  C2, amended.  The analysis lists every scenario stored for the project, enabled or not,
  in table order: one entry for each, nothing filtered and nothing reordered.
\<close>

theorem C2_all_scenarios:
  "api_analysis d userId projectId = Inr r \<Longrightarrow>
     map scenario (pa_scenarios r) = filter (id_is ''projectId'' projectId) (db_scenarios d)
     \<and> pws_scenarios (pa_project r) = filter (id_is ''projectId'' projectId) (db_scenarios d)"
  by (auto simp add: api_analysis_def getProjectWithScenarios_def getScenarios_def
      scenarioCalculations_def scenarioCalculation_client comp_def
      split: if_splits option.splits)

theorem C2_all_scenarios_witness:
  "api_analysis example_db 7 1 = Inr (projr (api_analysis example_db 7 1))
   \<and> map scenario (pa_scenarios (projr (api_analysis example_db 7 1)))
       = filter (id_is ''projectId'' 1) (db_scenarios example_db)
   \<and> filter (id_is ''projectId'' 1) (db_scenarios example_db) = [realistic_row, pessimistic_row]"
proof -
  have h: "api_analysis example_db 7 1 = Inr (projr (api_analysis example_db 7 1))"
    unfolding example_db_analysis by simp
  have "filter (id_is ''projectId'' 1) (db_scenarios example_db) = [realistic_row, pessimistic_row]"
    by (simp add: example_db_def id_is_def js_get_def realistic_row_def pessimistic_row_def)
  then show ?thesis
    using h C2_all_scenarios [OF h] by simp
qed

section \<open>Invalid input\<close>








section \<open>Partial updates\<close>


lemma js_set_not_empty: "js_set k v obj \<noteq> []"
  by (cases obj) (simp_all add: js_set_def)

























end
